theory Spec2Isabelle
  imports Main
begin

section \<open>Fitness and Health Tracker: validation, persistence and refresh\<close>

text \<open>
  The program is a Tk application over an SQLite file. Each of its three forms has a
  callback (\<open>log_activity\<close>, \<open>log_nutrition\<close>, \<open>set_goals\<close>) that reads the raw text of
  the entry fields, checks it, writes one table and redraws a widget; a fourth callback
  (\<open>open_summary_window\<close>) reads the goals table. The embedding keeps that structure:
  the text of a field is a \<open>string\<close>, the database is a record of three tables, the
  widgets the callbacks write are fields of the application state, and every dialog or
  uncaught exception of a callback is a value it returns. A callback that an exception
  leaves does not close its connection; what that connection still holds is part of the
  state too.
\<close>

subsection \<open>Python's \<open>int\<close> applied to text\<close>

text \<open>
  \<open>int(s)\<close> skips white space on both sides, reads an optional sign and then decimal
  digits, where single underscores may stand between two digits; anything else raises
  \<open>ValueError\<close>, here \<open>None\<close>. A character of the model is a code point below 256;
  among these the white space \<open>int\<close> skips is TAB, LF, VT, FF, CR, SPACE, NEL (133) and
  NBSP (160), and the only decimal digits are \<open>0\<close> to \<open>9\<close>. Python also refuses, with
  the same \<open>ValueError\<close>, a literal of more than \<open>int_max_str_digits\<close> digits (leading
  zeros counted, underscores and sign not).
\<close>

definition is_space :: "char \<Rightarrow> bool" where
  "is_space c = (let n = (of_char c :: nat) in
     n = 9 \<or> n = 10 \<or> n = 11 \<or> n = 12 \<or> n = 13 \<or> n = 32 \<or> n = 133 \<or> n = 160)"

definition is_digit :: "char \<Rightarrow> bool" where
  "is_digit c = (let n = (of_char c :: nat) in 48 \<le> n \<and> n \<le> 57)"

definition digit_val :: "char \<Rightarrow> int" where
  "digit_val c = int (of_char c) - 48"

definition int_max_str_digits :: nat where
  "int_max_str_digits = 4300"

text \<open>
  \<open>scan_digits us n acc cs\<close> reads digits and underscores from \<open>cs\<close>: \<open>us\<close> says that the
  character before was an underscore, \<open>n\<close> counts the digits read and \<open>acc\<close> is their
  value. It stops at the first other character and returns what is left; a doubled or a
  trailing underscore is an error.
\<close>

fun scan_digits :: "bool \<Rightarrow> nat \<Rightarrow> int \<Rightarrow> string \<Rightarrow> (nat \<times> int \<times> string) option" where
  "scan_digits us n acc [] = (if us then None else Some (n, acc, []))"
| "scan_digits us n acc (c # cs) =
     (if is_digit c then scan_digits False (Suc n) (10 * acc + digit_val c) cs
      else if c = CHR ''_'' then (if us then None else scan_digits True n acc cs)
      else if us then None else Some (n, acc, c # cs))"

definition split_sign :: "string \<Rightarrow> bool \<times> string" where
  "split_sign t = (case t of
       [] \<Rightarrow> (False, [])
     | c # cs \<Rightarrow> if c = CHR ''-'' then (True, cs)
                else if c = CHR ''+'' then (False, cs) else (False, t))"

definition py_int :: "string \<Rightarrow> int option" where
  "py_int s =
     (case split_sign (dropWhile is_space s) of (neg, u) \<Rightarrow>
        (case u of
           [] \<Rightarrow> None
         | c # _ \<Rightarrow>
             if c = CHR ''_'' then None
             else (case scan_digits False 0 0 u of
                     None \<Rightarrow> None
                   | Some (n, v, rest) \<Rightarrow>
                       if n = 0 \<or> dropWhile is_space rest \<noteq> [] \<or> int_max_str_digits < n
                       then None
                       else Some (if neg then - v else v))))"

subsection \<open>Python's \<open>str\<close> of an integer, as an f-string inserts it\<close>

definition digit_char :: "nat \<Rightarrow> char" where
  "digit_char n = ''0123456789'' ! n"

function digits_of :: "nat \<Rightarrow> string" where
  "digits_of n =
     (if n < 10 then [digit_char n]
      else digits_of (n div 10) @ [digit_char (n mod 10)])"
  by pat_completeness auto
termination
  by (relation "measure id") auto

definition py_str :: "int \<Rightarrow> string" where
  "py_str i = (if i < 0 then CHR ''-'' # digits_of (nat (- i)) else digits_of (nat i))"

text \<open>A nullable integer column comes back as \<open>None\<close> when it is NULL.\<close>

definition py_str_opt :: "int option \<Rightarrow> string" where
  "py_str_opt v = (case v of None \<Rightarrow> ''None'' | Some i \<Rightarrow> py_str i)"

subsection \<open>The database\<close>

text \<open>
  The three tables of \<open>setup_database\<close>. A column declared without \<open>NOT NULL\<close> holds an
  \<open>int option\<close>, \<open>None\<close> being NULL. The \<open>date\<close> columns are filled by their default
  \<open>DATE('now')\<close>, a text; the clock is not part of the program, so the day is an argument
  of each insert. The rows of a table are listed in the order of their row ids. Each
  table's \<open>AUTOINCREMENT\<close> counter (its line in \<open>sqlite_sequence\<close>) is kept beside it: it
  outlives \<open>DELETE\<close>.
\<close>

record activity_row =
  act_id :: int
  activity_name :: string
  duration :: int
  intensity :: string
  act_date :: string

record nutrition_row =
  nut_id :: int
  food_item :: string
  calories :: int
  carbs :: "int option"
  protein :: "int option"
  fats :: "int option"
  nut_date :: string

record goal_row =
  goal_id :: int
  weekly_exercise_goal :: "int option"
  daily_calorie_limit :: "int option"

record db =
  activities :: "activity_row list"
  activities_seq :: int
  nutrition :: "nutrition_row list"
  nutrition_seq :: int
  goals :: "goal_row list"
  goals_seq :: int

text \<open>The database after \<open>setup_database()\<close> has run on a file that did not exist.\<close>

definition setup_database :: db where
  "setup_database =
     \<lparr>activities = [], activities_seq = 0, nutrition = [], nutrition_seq = 0,
      goals = [], goals_seq = 0\<rparr>"

text \<open>
  An \<open>AUTOINCREMENT\<close> key is one more than the largest row id the table has ever held:
  the larger of the counter and of the ids present. Ids are unbounded integers here;
  SQLite's last row id, two to the power 63 minus one, is out of the reach of inserts of
  one row each.
\<close>

definition next_rowid :: "int \<Rightarrow> int list \<Rightarrow> int" where
  "next_rowid seq ids = fold max ids seq + 1"

text \<open>
  Two exceptions of the \<open>sqlite3\<close> module are decided by the program itself, and no
  callback catches either. The module binds a Python \<open>int\<close> to an SQLite INTEGER, a
  signed 64-bit value, and raises \<open>OverflowError\<close> for an \<open>int\<close> outside that range;
  this happens when the parameters are bound, before the statement runs. And a
  statement that writes raises \<open>OperationalError\<close> (database is locked) when another
  connection holds the write lock of the file. Apart from these the database file is
  taken to be there, so that every statement runs.

  The functions of this section say what a statement does to the tables when it runs;
  whether it runs is decided in the callbacks, further down.
\<close>

datatype exn = OverflowError | OperationalError

definition in_int64 :: "int \<Rightarrow> bool" where
  "in_int64 v = (- (2 ^ 63) \<le> v \<and> v < 2 ^ 63)"

definition insert_activity :: "string \<Rightarrow> int \<Rightarrow> string \<Rightarrow> string \<Rightarrow> db \<Rightarrow> exn + db" where
  "insert_activity name d level today s =
     (if \<not> in_int64 d then Inl OverflowError
      else let i = next_rowid (activities_seq s) (map act_id (activities s))
           in Inr (s\<lparr>activities := activities s @
                        [\<lparr>act_id = i, activity_name = name, duration = d,
                          intensity = level, act_date = today\<rparr>],
                      activities_seq := i\<rparr>))"

definition insert_nutrition ::
    "string \<Rightarrow> int \<Rightarrow> int \<Rightarrow> int \<Rightarrow> int \<Rightarrow> string \<Rightarrow> db \<Rightarrow> exn + db" where
  "insert_nutrition food cal cb pr ft today s =
     (if \<not> (in_int64 cal \<and> in_int64 cb \<and> in_int64 pr \<and> in_int64 ft) then Inl OverflowError
      else let i = next_rowid (nutrition_seq s) (map nut_id (nutrition s))
           in Inr (s\<lparr>nutrition := nutrition s @
                        [\<lparr>nut_id = i, food_item = food, calories = cal, carbs = Some cb,
                          protein = Some pr, fats = Some ft, nut_date = today\<rparr>],
                      nutrition_seq := i\<rparr>))"

text \<open>
  \<open>insert_activity\<close> and \<open>insert_nutrition\<close> are the \<open>INSERT\<close> of \<open>log_activity\<close>
  (lines 219 to 224) and of \<open>log_nutrition\<close> (lines 323 to 330), each with its
  \<open>commit\<close>. Next come \<open>DELETE FROM goals\<close> and the \<open>INSERT INTO goals\<close> that
  follows it in \<open>set_goals\<close> (lines 416 to 422).
\<close>

definition delete_goals :: "db \<Rightarrow> db" where
  "delete_goals s = s\<lparr>goals := []\<rparr>"

definition insert_goal :: "int \<Rightarrow> int \<Rightarrow> db \<Rightarrow> exn + db" where
  "insert_goal w c s =
     (if \<not> (in_int64 w \<and> in_int64 c) then Inl OverflowError
      else let i = next_rowid (goals_seq s) (map goal_id (goals s))
           in Inr (s\<lparr>goals := goals s @
                        [\<lparr>goal_id = i, weekly_exercise_goal = Some w,
                          daily_calorie_limit = Some c\<rparr>],
                      goals_seq := i\<rparr>))"

text \<open>
  The transaction of \<open>set_goals\<close>: both statements, then \<open>commit\<close>. When the insert
  raises, the delete before it is not committed: the tables other connections read are
  those before the callback.
\<close>

definition replace_goal :: "int \<Rightarrow> int \<Rightarrow> db \<Rightarrow> exn + db" where
  "replace_goal w c s = insert_goal w c (delete_goals s)"

text \<open>
  The three queries: the \<open>SELECT\<close> of \<open>load_activities\<close>, of \<open>load_nutrition\<close> and of
  \<open>open_summary_window\<close>. The two listings do not select the \<open>id\<close> column.
\<close>

definition list_activities :: "db \<Rightarrow> (string \<times> int \<times> string \<times> string) list" where
  "list_activities s =
     map (\<lambda>r. (activity_name r, duration r, intensity r, act_date r)) (activities s)"

definition list_nutrition ::
    "db \<Rightarrow> (string \<times> int \<times> int option \<times> int option \<times> int option \<times> string) list" where
  "list_nutrition s =
     map (\<lambda>r. (food_item r, calories r, carbs r, protein r, fats r, nut_date r)) (nutrition s)"

text \<open>\<open>ORDER BY id DESC LIMIT 1\<close>: the row of the largest id, if there is a row.\<close>

fun top_goal :: "goal_row list \<Rightarrow> goal_row option" where
  "top_goal [] = None"
| "top_goal (r # rs) =
     (case top_goal rs of
        None \<Rightarrow> Some r
      | Some r' \<Rightarrow> if goal_id r < goal_id r' then Some r' else Some r)"

definition latest_goal :: "db \<Rightarrow> (int option \<times> int option) option" where
  "latest_goal s =
     map_option (\<lambda>r. (weekly_exercise_goal r, daily_calorie_limit r)) (top_goal (goals s))"

subsection \<open>Validation of the raw text of a form\<close>

text \<open>
  Each callback first tests the required fields with \<open>not s\<close>, which holds for the
  empty text only, and then converts the numeric fields inside one \<open>try\<close>. The two
  ways to fail are named after the dialogs they lead to. The program has no function for
  this part: \<open>validate_activity\<close> is \<open>log_activity\<close> from its first \<open>if\<close> to the end of
  its \<open>try\<close> statement (lines 206 to 216 of \<open>MartinezAdamFinalProject.py\<close>),
  \<open>validate_nutrition\<close> the same part of \<open>log_nutrition\<close> (lines 307 to 320) and
  \<open>validate_goals\<close> that of \<open>set_goals\<close> (lines 402 to 413). The callbacks below
  are built from them, the dialog of each way to fail beside it.
\<close>

datatype error = MissingField | NotNumeric

definition validate_activity ::
    "string \<Rightarrow> string \<Rightarrow> string \<Rightarrow> error + (string \<times> int \<times> string)" where
  "validate_activity name dur level =
     (if name = [] \<or> dur = [] \<or> level = [] then Inl MissingField
      else case py_int dur of
             None \<Rightarrow> Inl NotNumeric
           | Some d \<Rightarrow> Inr (name, d, level))"

text \<open>\<open>int(x) if x else 0\<close>, for the three optional fields.\<close>

definition int_or_zero :: "string \<Rightarrow> int option" where
  "int_or_zero x = (if x \<noteq> [] then py_int x else Some 0)"

definition validate_nutrition ::
    "string \<Rightarrow> string \<Rightarrow> string \<Rightarrow> string \<Rightarrow> string \<Rightarrow>
     error + (string \<times> int \<times> int \<times> int \<times> int)" where
  "validate_nutrition food cal cb pr ft =
     (if food = [] \<or> cal = [] then Inl MissingField
      else case py_int cal of
             None \<Rightarrow> Inl NotNumeric
           | Some c \<Rightarrow>
               (case int_or_zero cb of
                  None \<Rightarrow> Inl NotNumeric
                | Some b \<Rightarrow>
                    (case int_or_zero pr of
                       None \<Rightarrow> Inl NotNumeric
                     | Some p \<Rightarrow>
                         (case int_or_zero ft of
                            None \<Rightarrow> Inl NotNumeric
                          | Some f \<Rightarrow> Inr (food, c, b, p, f)))))"

definition validate_goals :: "string \<Rightarrow> string \<Rightarrow> error + (int \<times> int)" where
  "validate_goals ex lim =
     (if ex = [] \<or> lim = [] then Inl MissingField
      else case py_int ex of
             None \<Rightarrow> Inl NotNumeric
           | Some w \<Rightarrow>
               (case py_int lim of
                  None \<Rightarrow> Inl NotNumeric
                | Some c \<Rightarrow> Inr (w, c)))"

subsection \<open>The widgets and their refresh\<close>

text \<open>
  The application state is the database file and the three widgets the callbacks write:
  the two text widgets, each holding the text inserted since it was last cleared, and the
  label of the goal tab. \<open>locked\<close> says that a connection which an earlier callback
  left open holds the write lock of the file.
\<close>

record app =
  store :: db
  locked :: bool
  activity_list :: string
  nutrition_list :: string
  goal_status :: string

definition activity_line :: "string \<times> int \<times> string \<times> string \<Rightarrow> string" where
  "activity_line rec = (case rec of (name, d, level, day) \<Rightarrow>
     name @ '' - '' @ py_str d @ '' min - '' @ level @ '' - '' @ day @ ''\<newline>'')"

definition nutrition_line ::
    "string \<times> int \<times> int option \<times> int option \<times> int option \<times> string \<Rightarrow> string" where
  "nutrition_line rec = (case rec of (food, cal, cb, pr, ft, day) \<Rightarrow>
     food @ '' - '' @ py_str cal @ '' cal - '' @ py_str_opt cb @ ''g carbs - ''
       @ py_str_opt pr @ ''g protein - '' @ py_str_opt ft @ ''g fats - '' @ day
       @ ''\<newline>'')"

text \<open>
  The loop \<open>for record in records: widget.insert(tk.END, ...)\<close>, on the text \<open>w\<close> the
  widget holds.
\<close>

fun insert_lines :: "('a \<Rightarrow> string) \<Rightarrow> string \<Rightarrow> 'a list \<Rightarrow> string" where
  "insert_lines line w [] = w"
| "insert_lines line w (r # rs) = insert_lines line (w @ line r) rs"

definition refresh :: "('a \<Rightarrow> string) \<Rightarrow> string \<Rightarrow> 'a list \<Rightarrow> string" where
  "refresh line none records =
     (let w = [] in if records \<noteq> [] then insert_lines line w records else w @ none)"

definition load_activities :: "app \<Rightarrow> app" where
  "load_activities a =
     a\<lparr>activity_list :=
         refresh activity_line ''No activities logged yet.\<newline>'' (list_activities (store a))\<rparr>"

definition load_nutrition :: "app \<Rightarrow> app" where
  "load_nutrition a =
     a\<lparr>nutrition_list :=
         refresh nutrition_line ''No nutrition records found.\<newline>'' (list_nutrition (store a))\<rparr>"

text \<open>The application as \<open>init_ui\<close> leaves it, on a given database file.\<close>

definition init_ui :: "db \<Rightarrow> app" where
  "init_ui s =
     load_nutrition (load_activities
       \<lparr>store = s, locked = False, activity_list = [], nutrition_list = [],
        goal_status = []\<rparr>)"

subsection \<open>The callbacks\<close>

text \<open>
  What a callback shows when it ends: the error dialog (title \<open>Input Error\<close>), the
  information dialog (title \<open>Success\<close>), an exception no handler of the callback
  catches, or the labels of the summary window under its heading.

  A callback that writes opens a connection, runs its statements, commits and closes. No
  callback has a \<open>try\<close> around this part, so an exception leaves it with the
  connection open, and the traceback that Tk keeps of the exception keeps the connection
  alive. In \<open>log_activity\<close> and \<open>log_nutrition\<close> the one statement either fails when
  its parameters are bound, or finds the file locked, or runs; the connection left behind
  holds no lock. In \<open>set_goals\<close> the \<open>DELETE\<close> comes first: it finds the file locked,
  or it runs and takes the write lock. When the \<open>INSERT\<close> after it then fails on its
  parameters, the connection left behind keeps that lock, with the delete uncommitted.
  The queries of the lists and of the summary window read beside such a lock and see the
  committed tables.
\<close>

datatype notice =
    ShowError string
  | ShowInfo string
  | Raised exn
  | SummaryWindow "string list"
  | Silent

definition log_activity :: "string \<Rightarrow> string \<Rightarrow> string \<Rightarrow> string \<Rightarrow> app \<Rightarrow> notice \<times> app" where
  "log_activity name dur level today a =
     (case validate_activity name dur level of
        Inl MissingField \<Rightarrow> (ShowError ''All fields are required!'', a)
      | Inl NotNumeric \<Rightarrow> (ShowError ''Duration must be a number!'', a)
      | Inr (n, d, l) \<Rightarrow>
          (case insert_activity n d l today (store a) of
             Inl e \<Rightarrow> (Raised e, a)
           | Inr s' \<Rightarrow>
               if locked a then (Raised OperationalError, a)
               else (ShowInfo ''Activity logged successfully!'',
                     load_activities (a\<lparr>store := s'\<rparr>))))"

definition log_nutrition ::
    "string \<Rightarrow> string \<Rightarrow> string \<Rightarrow> string \<Rightarrow> string \<Rightarrow> string \<Rightarrow> app \<Rightarrow> notice \<times> app" where
  "log_nutrition food cal cb pr ft today a =
     (case validate_nutrition food cal cb pr ft of
        Inl MissingField \<Rightarrow> (ShowError ''Food Item and Calories are required!'', a)
      | Inl NotNumeric \<Rightarrow>
          (ShowError ''Calories, Carbs, Protein, and Fats must be numbers!'', a)
      | Inr (f, c, b, p, t) \<Rightarrow>
          (case insert_nutrition f c b p t today (store a) of
             Inl e \<Rightarrow> (Raised e, a)
           | Inr s' \<Rightarrow>
               if locked a then (Raised OperationalError, a)
               else (ShowInfo ''Nutrition logged successfully!'',
                     load_nutrition (a\<lparr>store := s'\<rparr>))))"

definition set_goals :: "string \<Rightarrow> string \<Rightarrow> app \<Rightarrow> notice \<times> app" where
  "set_goals ex lim a =
     (case validate_goals ex lim of
        Inl MissingField \<Rightarrow> (ShowError ''All fields are required!'', a)
      | Inl NotNumeric \<Rightarrow> (ShowError ''Goals must be numbers!'', a)
      | Inr (w, c) \<Rightarrow>
          if locked a then (Raised OperationalError, a)
          else (case replace_goal w c (store a) of
                  Inl e \<Rightarrow> (Raised e, a\<lparr>locked := True\<rparr>)
                | Inr s' \<Rightarrow>
                    (ShowInfo ''Goals set successfully!'',
                     a\<lparr>store := s',
                       goal_status := ''Weekly Goal: '' @ py_str w @ '' hrs | Daily Limit: ''
                                        @ py_str c @ '' cal''\<rparr>)))"

text \<open>
  \<open>if goal:\<close> tests the fetched row, a pair, which is true whatever it holds; only
  \<open>None\<close>, no row, is false.
\<close>

definition open_summary_window :: "app \<Rightarrow> notice \<times> app" where
  "open_summary_window a =
     (case latest_goal (store a) of
        Some (w, c) \<Rightarrow>
          (SummaryWindow [''Weekly Exercise: '' @ py_str_opt w @ '' hrs'',
                          ''Daily Calorie Limit: '' @ py_str_opt c @ '' cal''], a)
      | None \<Rightarrow> (SummaryWindow [''No goals set yet.''], a))"

subsection \<open>Runs of the application\<close>

text \<open>
  What the user and \<open>init_ui\<close> can trigger, with the text of the fields at that moment
  (and the day, for the two forms whose table has a \<open>date\<close> column). The last event is
  not the user's: the interpreter frees the connection that holds the lock, which closes
  it and rolls its transaction back. That can happen once a later exception has replaced
  the traceback and the garbage collector has run; the program decides neither, so the
  event may come at any point of a run.
\<close>

datatype event =
    LogActivity string string string string
  | LogNutrition string string string string string string
  | SetGoals string string
  | OpenSummary
  | LoadActivities
  | LoadNutrition
  | CloseLeaked

fun step :: "event \<Rightarrow> app \<Rightarrow> notice \<times> app" where
  "step (LogActivity name dur level today) a = log_activity name dur level today a"
| "step (LogNutrition food cal cb pr ft today) a = log_nutrition food cal cb pr ft today a"
| "step (SetGoals ex lim) a = set_goals ex lim a"
| "step OpenSummary a = open_summary_window a"
| "step LoadActivities a = (Silent, load_activities a)"
| "step LoadNutrition a = (Silent, load_nutrition a)"
| "step CloseLeaked a = (Silent, a\<lparr>locked := False\<rparr>)"

fun run :: "event list \<Rightarrow> app \<Rightarrow> app" where
  "run [] a = a"
| "run (e # es) a = run es (snd (step e a))"

text \<open>A submission of the goal form that ends with the success dialog.\<close>

fun goal_set :: "event \<Rightarrow> app \<Rightarrow> bool" where
  "goal_set (SetGoals ex lim) a = (fst (set_goals ex lim a) = ShowInfo ''Goals set successfully!'')"
| "goal_set e a = False"

fun goal_ever_set :: "event list \<Rightarrow> app \<Rightarrow> bool" where
  "goal_ever_set [] a = False"
| "goal_ever_set (e # es) a = (goal_set e a \<or> goal_ever_set es (snd (step e a)))"

subsection \<open>Submissions of the goal form\<close>

text \<open>
  A submission of the goal form is a pair of field texts. It is in range when both texts
  convert to integers that the INTEGER columns can hold.
\<close>

definition goal_submission_in_range :: "string \<times> string \<Rightarrow> bool" where
  "goal_submission_in_range sub =
     (case validate_goals (fst sub) (snd sub) of
        Inl _ \<Rightarrow> False
      | Inr (w, c) \<Rightarrow> in_int64 w \<and> in_int64 c)"

definition submit_goals :: "string \<times> string \<Rightarrow> event" where
  "submit_goals sub = SetGoals (fst sub) (snd sub)"

text \<open>
  The listings of the program have no \<open>ORDER BY\<close>: SQLite walks the table by row id.
  A table is a list here, and this says that the list is in that order.
\<close>

definition ordered_by_id :: "db \<Rightarrow> bool" where
  "ordered_by_id s =
     (sorted_wrt (<) (map act_id (activities s)) \<and>
      sorted_wrt (<) (map nut_id (nutrition s)) \<and>
      sorted_wrt (<) (map goal_id (goals s)))"

section \<open>Properties\<close>

subsection \<open>Row ids, queries and refresh\<close>

lemma fold_max_ge_init: "seq \<le> fold max ids (seq::int)"
  by (induction ids arbitrary: seq) (auto intro: order_trans [OF max.cobounded2])

lemma fold_max_ge_elem: "x \<in> set ids \<Longrightarrow> x \<le> fold max ids (seq::int)"
proof (induction ids arbitrary: seq)
  case Nil
  then show ?case by simp
next
  case (Cons y ys)
  show ?case
  proof (cases "x = y")
    case True
    have "y \<le> max y seq" by simp
    also have "\<dots> \<le> fold max ys (max y seq)" by (rule fold_max_ge_init)
    finally show ?thesis using True by simp
  next
    case False
    with Cons.prems have "x \<in> set ys" by simp
    then show ?thesis using Cons.IH by simp
  qed
qed


lemma next_rowid_above: "x \<in> set ids \<Longrightarrow> x < next_rowid seq ids"
  using fold_max_ge_elem [of x ids seq] by (simp add: next_rowid_def)

lemma top_goal_None_iff: "top_goal rs = None \<longleftrightarrow> rs = []"
  by (cases rs) (auto split: option.splits)

lemma latest_goal_None_iff: "latest_goal s = None \<longleftrightarrow> goals s = []"
  by (simp add: latest_goal_def top_goal_None_iff)

lemma insert_lines_concat: "insert_lines line w rs = w @ concat (map line rs)"
  by (induction rs arbitrary: w) simp_all

lemma refresh_eq:
  "refresh line none rs = (if rs = [] then none else concat (map line rs))"
  by (simp add: refresh_def insert_lines_concat)

subsection \<open>What a step does to the goals table\<close>

lemma goals_log_activity:
  "goals (store (snd (log_activity name dur level today a))) = goals (store a)"
  by (simp add: log_activity_def insert_activity_def load_activities_def Let_def
           split: sum.splits error.splits prod.splits)

lemma goals_log_nutrition:
  "goals (store (snd (log_nutrition food cal cb pr ft today a))) = goals (store a)"
  by (simp add: log_nutrition_def insert_nutrition_def load_nutrition_def Let_def
           split: sum.splits error.splits prod.splits)

lemma set_goals_cases:
  "(goal_set (SetGoals ex lim) a \<and> \<not> locked a \<and>
      (\<exists>w c. validate_goals ex lim = Inr (w, c) \<and> in_int64 w \<and> in_int64 c \<and>
         goals (store (snd (set_goals ex lim a))) =
           [\<lparr>goal_id = goals_seq (store a) + 1, weekly_exercise_goal = Some w,
             daily_calorie_limit = Some c\<rparr>]))
   \<or> (\<not> goal_set (SetGoals ex lim) a \<and> store (snd (set_goals ex lim a)) = store a)"
  by (auto simp: set_goals_def replace_goal_def insert_goal_def delete_goals_def
                 next_rowid_def Let_def
           split: sum.splits error.splits prod.splits if_splits)

lemma goals_step:
  "goals (store (snd (step e a))) =
     (if goal_set e a then goals (store (snd (step e a))) else goals (store a))"
proof (cases e)
  case (SetGoals ex lim)
  then show ?thesis using set_goals_cases [of ex lim a] by auto
qed (simp_all add: goals_log_activity goals_log_nutrition open_summary_window_def
       load_activities_def load_nutrition_def split: option.splits prod.splits)

lemma goal_set_single:
  "goal_set e a \<Longrightarrow> length (goals (store (snd (step e a)))) = 1"
proof (cases e)
  case (SetGoals ex lim)
  assume "goal_set e a"
  then show ?thesis using SetGoals set_goals_cases [of ex lim a] by auto
qed simp_all

lemma step_goals_le_1:
  "length (goals (store a)) \<le> 1 \<Longrightarrow> length (goals (store (snd (step e a)))) \<le> 1"
  using goals_step [of e a] goal_set_single [of e a] by (cases "goal_set e a") simp_all

lemma run_goals_le_1:
  "length (goals (store a)) \<le> 1 \<Longrightarrow> length (goals (store (run es a))) \<le> 1"
proof (induction es arbitrary: a)
  case Nil
  then show ?case by simp
next
  case (Cons e es)
  from Cons.prems have "length (goals (store (snd (step e a)))) \<le> 1"
    by (rule step_goals_le_1)
  then have "length (goals (store (run es (snd (step e a))))) \<le> 1"
    by (rule Cons.IH)
  then show ?case by simp
qed

lemma goals_init_ui: "goals (store (init_ui s)) = goals s"
  by (simp add: init_ui_def load_activities_def load_nutrition_def)

text \<open>
  The write lock is left behind by one path only: a goal submission that passes
  validation, finds the file free and fails when its \<open>INSERT\<close> is bound.
\<close>

lemma lock_origin:
  assumes "locked (snd (step e a))" and "\<not> locked a"
  shows "\<exists>ex lim w c. e = SetGoals ex lim \<and> validate_goals ex lim = Inr (w, c) \<and>
           \<not> (in_int64 w \<and> in_int64 c) \<and> step e a = (Raised OverflowError, a\<lparr>locked := True\<rparr>)"
proof (cases e)
  case (LogActivity name dur level today)
  with assms show ?thesis
    by (simp add: log_activity_def load_activities_def
          split: sum.splits error.splits prod.splits)
next
  case (LogNutrition food cal cb pr ft today)
  with assms show ?thesis
    by (simp add: log_nutrition_def load_nutrition_def
          split: sum.splits error.splits prod.splits)
next
  case (SetGoals ex lim)
  with assms show ?thesis
    by (auto simp: set_goals_def replace_goal_def insert_goal_def Let_def
          split: sum.splits error.splits prod.splits if_splits)
next
  case OpenSummary
  with assms show ?thesis
    by (simp add: open_summary_window_def split: option.splits prod.splits)
next
  case LoadActivities
  with assms show ?thesis by (simp add: load_activities_def)
next
  case LoadNutrition
  with assms show ?thesis by (simp add: load_nutrition_def)
next
  case CloseLeaked
  with assms show ?thesis by simp
qed

text \<open>
  Every insert takes an id above all ids of its table, so the tables of every state the
  application reaches are in the order of their ids.
\<close>

lemma sorted_ids_snoc:
  "sorted_wrt (<) ids \<Longrightarrow> sorted_wrt (<) (ids @ [next_rowid seq ids])"
  by (simp add: sorted_wrt_append next_rowid_above)

lemma step_ordered_by_id:
  "ordered_by_id (store a) \<Longrightarrow> ordered_by_id (store (snd (step e a)))"
proof (cases e)
  case (LogActivity name dur level today)
  assume "ordered_by_id (store a)"
  then show ?thesis
    using sorted_ids_snoc [of "map act_id (activities (store a))" "activities_seq (store a)"]
    by (simp add: LogActivity ordered_by_id_def log_activity_def insert_activity_def
          load_activities_def Let_def split: sum.splits error.splits prod.splits)
next
  case (LogNutrition food cal cb pr ft today)
  assume "ordered_by_id (store a)"
  then show ?thesis
    using sorted_ids_snoc [of "map nut_id (nutrition (store a))" "nutrition_seq (store a)"]
    by (simp add: LogNutrition ordered_by_id_def log_nutrition_def insert_nutrition_def
          load_nutrition_def Let_def split: sum.splits error.splits prod.splits)
next
  case (SetGoals ex lim)
  assume "ordered_by_id (store a)"
  then show ?thesis
    by (simp add: SetGoals ordered_by_id_def set_goals_def replace_goal_def insert_goal_def
          delete_goals_def Let_def split: sum.splits error.splits prod.splits)
next
  case OpenSummary
  assume "ordered_by_id (store a)"
  then show ?thesis
    by (simp add: OpenSummary open_summary_window_def split: option.splits prod.splits)
next
  case LoadActivities
  assume "ordered_by_id (store a)"
  then show ?thesis by (simp add: LoadActivities load_activities_def)
next
  case LoadNutrition
  assume "ordered_by_id (store a)"
  then show ?thesis by (simp add: LoadNutrition load_nutrition_def)
next
  case CloseLeaked
  assume "ordered_by_id (store a)"
  then show ?thesis by (simp add: CloseLeaked)
qed

lemma run_ordered_by_id:
  "ordered_by_id (store (run es (init_ui setup_database)))"
proof -
  have "ordered_by_id (store a) \<Longrightarrow> ordered_by_id (store (run es a))" for a
    by (induction es arbitrary: a) (simp_all add: step_ordered_by_id)
  moreover have "ordered_by_id (store (init_ui setup_database))"
    by (simp add: ordered_by_id_def init_ui_def load_activities_def load_nutrition_def
          setup_database_def)
  ultimately show ?thesis by blast
qed

lemma run_goals_empty_iff:
  "goals (store (run es a)) = [] \<longleftrightarrow> goals (store a) = [] \<and> \<not> goal_ever_set es a"
proof (induction es arbitrary: a)
  case Nil
  show ?case by simp
next
  case (Cons e es)
  show ?case
  proof (cases "goal_set e a")
    case True
    then have "goals (store (snd (step e a))) \<noteq> []"
      using goal_set_single [of e a] by auto
    with True show ?thesis using Cons.IH [of "snd (step e a)"] by simp
  next
    case False
    then have "goals (store (snd (step e a))) = goals (store a)"
      using goals_step [of e a] by simp
    with False show ?thesis using Cons.IH [of "snd (step e a)"] by simp
  qed
qed

subsection \<open>Evaluation of the definitions on concrete input\<close>

lemmas eval_defs =
  py_int_def split_sign_def is_space_def is_digit_def digit_val_def int_max_str_digits_def
  py_str_def py_str_opt_def digit_char_def in_int64_def next_rowid_def
  validate_activity_def validate_nutrition_def validate_goals_def int_or_zero_def
  insert_activity_def insert_nutrition_def insert_goal_def delete_goals_def replace_goal_def
  list_activities_def list_nutrition_def latest_goal_def
  activity_line_def nutrition_line_def refresh_def load_activities_def load_nutrition_def
  init_ui_def setup_database_def log_activity_def log_nutrition_def set_goals_def
  open_summary_window_def Let_def

subsection \<open>The goals table\<close>

text \<open>
  C1. In every state the application reaches from the database \<open>setup_database\<close> creates,
  by any sequence of form submissions, summaries and list refreshes, the goals table has at
  most one row; and every single operation, run in any state whose goals table has at most
  one row, ends in such a state again.
\<close>

theorem at_most_one_goal:
  "length (goals (store (run es (init_ui setup_database)))) \<le> 1 \<and>
   (length (goals (store a)) \<le> 1 \<longrightarrow> length (goals (store (snd (step e a)))) \<le> 1)"
proof
  have "length (goals (store (init_ui setup_database))) \<le> 1"
    by (simp add: goals_init_ui setup_database_def)
  then show "length (goals (store (run es (init_ui setup_database)))) \<le> 1"
    by (rule run_goals_le_1)
  show "length (goals (store a)) \<le> 1 \<longrightarrow> length (goals (store (snd (step e a)))) \<le> 1"
    using step_goals_le_1 [of a e] by blast
qed

theorem at_most_one_goal_witness:
  "length (goals (store (snd (step (SetGoals ''5'' ''2000'') (init_ui setup_database))))) = 1 \<and>
   length (goals (store (snd (step (SetGoals ''7'' ''1800'')
      (snd (step (SetGoals ''5'' ''2000'') (init_ui setup_database))))))) \<le> 1 \<and>
   length (goals (store (run [SetGoals ''5'' ''2000'', SetGoals ''7'' ''1800'']
      (init_ui setup_database)))) \<le> 1"
proof -
  have h: "length (goals (store (snd (step (SetGoals ''5'' ''2000'') (init_ui setup_database))))) = 1"
    by (simp add: eval_defs)
  show ?thesis
    using h at_most_one_goal [of "[SetGoals ''5'' ''2000'', SetGoals ''7'' ''1800'']"
        "snd (step (SetGoals ''5'' ''2000'') (init_ui setup_database))" "SetGoals ''7'' ''1800''"]
    by simp
qed

text \<open>
  C6. After any sequence of operations from the database \<open>setup_database\<close> creates, the
  query of the summary window finds no row (and the window says that no goals are set)
  exactly when no submission of the goal form in that sequence has succeeded. A goal of
  zero hours and zero calories is a row, not the absence of one.
\<close>

theorem no_goal_iff_never_set:
  "(latest_goal (store (run es (init_ui setup_database))) = None
      \<longleftrightarrow> \<not> goal_ever_set es (init_ui setup_database)) \<and>
   (fst (open_summary_window (run es (init_ui setup_database))) = SummaryWindow [''No goals set yet.'']
      \<longleftrightarrow> \<not> goal_ever_set es (init_ui setup_database))"
proof -
  have g: "goals (store (run es (init_ui setup_database))) = []
      \<longleftrightarrow> \<not> goal_ever_set es (init_ui setup_database)"
    by (simp add: run_goals_empty_iff goals_init_ui setup_database_def)
  have l: "latest_goal (store (run es (init_ui setup_database))) = None
      \<longleftrightarrow> \<not> goal_ever_set es (init_ui setup_database)"
    using g by (simp add: latest_goal_None_iff)
  have "fst (open_summary_window b) = SummaryWindow [''No goals set yet.'']
      \<longleftrightarrow> latest_goal (store b) = None" for b
    by (simp add: open_summary_window_def split: option.splits prod.splits)
  with l show ?thesis by simp
qed

theorem no_goal_iff_never_set_witness:
  "\<not> goal_ever_set [LogActivity ''Running'' ''30'' ''High'' ''2024-12-09'', SetGoals '''' ''2000'',
       SetGoals ''five'' ''2000'', OpenSummary] (init_ui setup_database) \<and>
   latest_goal (store (run [LogActivity ''Running'' ''30'' ''High'' ''2024-12-09'',
       SetGoals '''' ''2000'', SetGoals ''five'' ''2000'', OpenSummary] (init_ui setup_database))) = None \<and>
   goal_ever_set [SetGoals ''0'' ''0'', OpenSummary] (init_ui setup_database) \<and>
   latest_goal (store (run [SetGoals ''0'' ''0'', OpenSummary] (init_ui setup_database))) \<noteq> None"
proof -
  have a: "\<not> goal_ever_set [LogActivity ''Running'' ''30'' ''High'' ''2024-12-09'', SetGoals '''' ''2000'',
       SetGoals ''five'' ''2000'', OpenSummary] (init_ui setup_database)"
    by (simp add: eval_defs)
  have b: "goal_ever_set [SetGoals ''0'' ''0'', OpenSummary] (init_ui setup_database)"
    by (simp add: eval_defs)
  show ?thesis
    using a b
      no_goal_iff_never_set [of "[LogActivity ''Running'' ''30'' ''High'' ''2024-12-09'',
         SetGoals '''' ''2000'', SetGoals ''five'' ''2000'', OpenSummary]"]
      no_goal_iff_never_set [of "[SetGoals ''0'' ''0'', OpenSummary]"]
    by blast
qed

lemma run_snoc: "run (es @ [e]) a = snd (step e (run es a))"
  by (induction es arbitrary: a) simp_all

lemma set_goals_valid:
  assumes "validate_goals ex lim = Inr (w, c)" and "in_int64 w" and "in_int64 c"
    and "\<not> locked a"
  shows "set_goals ex lim a =
     (ShowInfo ''Goals set successfully!'',
      a\<lparr>store := (store a)\<lparr>goals := [\<lparr>goal_id = goals_seq (store a) + 1,
                                         weekly_exercise_goal = Some w,
                                         daily_calorie_limit = Some c\<rparr>],
                              goals_seq := goals_seq (store a) + 1\<rparr>,
        goal_status := ''Weekly Goal: '' @ py_str w @ '' hrs | Daily Limit: ''
                         @ py_str c @ '' cal''\<rparr>)"
  using assms
  by (simp add: set_goals_def replace_goal_def insert_goal_def delete_goals_def
        next_rowid_def Let_def)

lemma step_in_range_unlocked:
  assumes "goal_submission_in_range sub" and "\<not> locked a"
  shows "\<not> locked (snd (step (submit_goals sub) a))"
proof -
  from assms(1) obtain w c where "validate_goals (fst sub) (snd sub) = Inr (w, c)"
    and "in_int64 w" and "in_int64 c"
    by (auto simp: goal_submission_in_range_def split: sum.splits)
  then show ?thesis
    using assms(2) by (simp add: submit_goals_def set_goals_valid)
qed

lemma run_in_range_unlocked:
  "list_all goal_submission_in_range subs \<Longrightarrow> \<not> locked a \<Longrightarrow>
     \<not> locked (run (map submit_goals subs) a)"
proof (induction subs arbitrary: a)
  case Nil
  then show ?case by simp
next
  case (Cons sub subs)
  from Cons.prems have "\<not> locked (snd (step (submit_goals sub) a))"
    by (simp add: step_in_range_unlocked)
  with Cons.prems Cons.IH show ?case by simp
qed

text \<open>
  C2, as the specification states it, fails in two ways. Both submissions of the first
  run pass validation, but the second asks for two to the power 63 calories: its
  \<open>INSERT\<close> raises \<open>OverflowError\<close>, nothing is committed, and the summary query still
  returns the goal of the first submission. In the second run that overflow comes first
  and leaves its connection holding the write lock; the submission of 7 and 1800 after
  it, which is in range, finds the file locked, and the goals table holds no row at all.
\<close>

theorem goal_submission_not_stored_counterexample:
  "validate_goals ''5'' ''2000'' = Inr (5, 2000) \<and>
   validate_goals ''7'' ''9223372036854775808'' = Inr (7, 9223372036854775808) \<and>
   latest_goal (store (run [SetGoals ''5'' ''2000'', SetGoals ''7'' ''9223372036854775808'']
       (init_ui setup_database))) = Some (Some 5, Some 2000) \<and>
   validate_goals ''7'' ''1800'' = Inr (7, 1800) \<and>
   step (SetGoals ''7'' ''1800'')
       (run [SetGoals ''7'' ''9223372036854775808''] (init_ui setup_database)) =
     (Raised OperationalError,
      run [SetGoals ''7'' ''9223372036854775808''] (init_ui setup_database)) \<and>
   goals (store (run [SetGoals ''7'' ''9223372036854775808'', SetGoals ''7'' ''1800'']
       (init_ui setup_database))) = []"
  by (simp add: eval_defs)

text \<open>
  C2, amended. Take a state in which no connection left open holds the write lock, and any
  sequence of one or more submissions of the goal form, each of them in range. After the
  last of them the goals table holds exactly one row, whose two fields are the integers of
  that last submission; the query of the summary window returns that row, and the window
  shows it. Nothing of an earlier submission is left.
\<close>

theorem last_goal_submission_wins:
  assumes "\<not> locked a" and "subs \<noteq> []" and "list_all goal_submission_in_range subs"
    and "validate_goals (fst (last subs)) (snd (last subs)) = Inr (w, c)"
  shows "(\<exists>i. goals (store (run (map submit_goals subs) a)) =
            [\<lparr>goal_id = i, weekly_exercise_goal = Some w, daily_calorie_limit = Some c\<rparr>]) \<and>
         latest_goal (store (run (map submit_goals subs) a)) = Some (Some w, Some c) \<and>
         fst (open_summary_window (run (map submit_goals subs) a)) =
           SummaryWindow [''Weekly Exercise: '' @ py_str w @ '' hrs'',
                          ''Daily Calorie Limit: '' @ py_str c @ '' cal'']"
proof -
  define b where "b = run (map submit_goals (butlast subs)) a"
  define ex where "ex = fst (last subs)"
  define lim where "lim = snd (last subs)"
  from assms(2) have split: "subs = butlast subs @ [last subs]" by simp
  then have "map submit_goals subs = map submit_goals (butlast subs) @ [SetGoals ex lim]"
    by (metis (no_types) ex_def lim_def list.simps(8,9) map_append submit_goals_def)
  then have r: "run (map submit_goals subs) a = snd (set_goals ex lim b)"
    by (simp add: run_snoc b_def)
  from assms(3) split have "list_all goal_submission_in_range (butlast subs)"
    by (metis list_all_append)
  with assms(1) have u: "\<not> locked b"
    unfolding b_def by (rule run_in_range_unlocked [rotated])
  from assms(2,3) have "goal_submission_in_range (last subs)"
    by (simp add: list_all_iff)
  with assms(4) have v: "in_int64 w" "in_int64 c"
    by (simp_all add: goal_submission_in_range_def)
  from assms(4) have "validate_goals ex lim = Inr (w, c)" by (simp add: ex_def lim_def)
  then have s: "goals (store (snd (set_goals ex lim b))) =
      [\<lparr>goal_id = goals_seq (store b) + 1, weekly_exercise_goal = Some w,
        daily_calorie_limit = Some c\<rparr>]"
    using v u by (simp add: set_goals_valid)
  then have l: "latest_goal (store (snd (set_goals ex lim b))) = Some (Some w, Some c)"
    by (simp add: latest_goal_def)
  then have "fst (open_summary_window (snd (set_goals ex lim b))) =
           SummaryWindow [''Weekly Exercise: '' @ py_str w @ '' hrs'',
                          ''Daily Calorie Limit: '' @ py_str c @ '' cal'']"
    by (simp add: open_summary_window_def py_str_opt_def)
  with s l r show ?thesis by simp
qed

theorem last_goal_submission_wins_witness:
  "\<not> locked (init_ui setup_database) \<and>
   [(''5'', ''2000''), (''7'', ''1800'')] \<noteq> [] \<and>
   list_all goal_submission_in_range [(''5'', ''2000''), (''7'', ''1800'')] \<and>
   validate_goals ''7'' ''1800'' = Inr (7, 1800) \<and>
   latest_goal (store (run (map submit_goals [(''5'', ''2000''), (''7'', ''1800'')])
      (init_ui setup_database))) = Some (Some 7, Some 1800) \<and>
   length (goals (store (run (map submit_goals [(''5'', ''2000''), (''7'', ''1800'')])
      (init_ui setup_database)))) = 1"
proof -
  have u: "\<not> locked (init_ui setup_database)"
    by (simp add: init_ui_def load_activities_def load_nutrition_def)
  have v: "list_all goal_submission_in_range [(''5'', ''2000''), (''7'', ''1800'')]"
    by (simp add: goal_submission_in_range_def eval_defs)
  have p: "validate_goals (fst (last [(''5'', ''2000''), (''7'', ''1800'')]))
      (snd (last [(''5'', ''2000''), (''7'', ''1800'')])) = Inr (7, 1800)"
    by (simp add: eval_defs)
  have n: "[(''5'', ''2000''), (''7'', ''1800'')] \<noteq> ([] :: (string \<times> string) list)" by simp
  from last_goal_submission_wins [OF u n v p] u v p
  show ?thesis by auto
qed

subsection \<open>The activity form\<close>








subsection \<open>Rejected submissions\<close>

lemma log_activity_rejected:
  "validate_activity name dur level = Inl e \<Longrightarrow>
     \<exists>msg. log_activity name dur level today a = (ShowError msg, a)"
  by (cases e) (simp_all add: log_activity_def)

lemma log_nutrition_rejected:
  "validate_nutrition food cal cb pr ft = Inl e \<Longrightarrow>
     \<exists>msg. log_nutrition food cal cb pr ft today a = (ShowError msg, a)"
  by (cases e) (simp_all add: log_nutrition_def)

lemma set_goals_rejected:
  "validate_goals ex lim = Inl e \<Longrightarrow> \<exists>msg. set_goals ex lim a = (ShowError msg, a)"
  by (cases e) (simp_all add: set_goals_def)

text \<open>
  C4. Whenever the validation of a form fails, on a required field that is empty or on a
  numeric field that \<open>int\<close> refuses, the callback shows an error dialog and returns
  with the database exactly as it was: no table gains a row and none loses one. This holds
  for each of the three forms.
\<close>

theorem rejected_submission_changes_nothing:
  "(isl (validate_activity name dur level) \<longrightarrow>
      store (snd (log_activity name dur level today a)) = store a \<and>
      (\<exists>msg. log_activity name dur level today a = (ShowError msg, a))) \<and>
   (isl (validate_nutrition food cal cb pr ft) \<longrightarrow>
      store (snd (log_nutrition food cal cb pr ft today a)) = store a \<and>
      (\<exists>msg. log_nutrition food cal cb pr ft today a = (ShowError msg, a))) \<and>
   (isl (validate_goals ex lim) \<longrightarrow>
      store (snd (set_goals ex lim a)) = store a \<and>
      (\<exists>msg. set_goals ex lim a = (ShowError msg, a)))"
proof (intro conjI impI)
  assume "isl (validate_activity name dur level)"
  then obtain e where "validate_activity name dur level = Inl e" by (auto simp: isl_def)
  from log_activity_rejected [OF this, of today a]
  show "store (snd (log_activity name dur level today a)) = store a"
    and "\<exists>msg. log_activity name dur level today a = (ShowError msg, a)" by auto
next
  assume "isl (validate_nutrition food cal cb pr ft)"
  then obtain e where "validate_nutrition food cal cb pr ft = Inl e" by (auto simp: isl_def)
  from log_nutrition_rejected [OF this, of today a]
  show "store (snd (log_nutrition food cal cb pr ft today a)) = store a"
    and "\<exists>msg. log_nutrition food cal cb pr ft today a = (ShowError msg, a)" by auto
next
  assume "isl (validate_goals ex lim)"
  then obtain e where "validate_goals ex lim = Inl e" by (auto simp: isl_def)
  from set_goals_rejected [OF this, of a]
  show "store (snd (set_goals ex lim a)) = store a"
    and "\<exists>msg. set_goals ex lim a = (ShowError msg, a)" by auto
qed

theorem rejected_submission_changes_nothing_witness:
  "validate_activity ''Running'' ''abc'' ''High'' = Inl NotNumeric \<and>
   store (snd (log_activity ''Running'' ''abc'' ''High'' ''2024-12-09'' (init_ui setup_database)))
     = setup_database \<and>
   validate_nutrition ''Apple'' '''' '''' '''' '''' = Inl MissingField \<and>
   store (snd (log_nutrition ''Apple'' '''' '''' '''' '''' ''2024-12-09''
     (init_ui setup_database))) = setup_database \<and>
   validate_goals ''5'' ''2000.5'' = Inl NotNumeric \<and>
   store (snd (set_goals ''5'' ''2000.5'' (init_ui setup_database))) = setup_database"
proof -
  have v1: "validate_activity ''Running'' ''abc'' ''High'' = Inl NotNumeric"
    by (simp add: eval_defs)
  have v2: "validate_nutrition ''Apple'' '''' '''' '''' '''' = Inl MissingField"
    by (simp add: eval_defs)
  have v3: "validate_goals ''5'' ''2000.5'' = Inl NotNumeric"
    by (simp add: eval_defs)
  have s: "store (init_ui setup_database) = setup_database"
    by (simp add: init_ui_def load_activities_def load_nutrition_def)
  from rejected_submission_changes_nothing [of "''Running''" "''abc''" "''High''"
      "''2024-12-09''" "init_ui setup_database" "''Apple''" "''''" "''''" "''''" "''''"
      "''5''" "''2000.5''"] v1 v2 v3 s
  show ?thesis by simp
qed

text \<open>
  C8. When one of the name, the duration and the intensity is the empty text, the activity
  form is rejected for the missing field, whatever the duration text is otherwise: the
  test for it comes before the conversion, which is then never tried.
\<close>

theorem missing_field_first:
  assumes "name = [] \<or> dur = [] \<or> level = []"
  shows "validate_activity name dur level = Inl MissingField \<and>
     log_activity name dur level today a = (ShowError ''All fields are required!'', a)"
  using assms by (simp add: validate_activity_def log_activity_def)

theorem missing_field_first_witness:
  "py_int ''abc'' = None \<and>
   validate_activity [] ''abc'' ''High'' = Inl MissingField \<and>
   log_activity [] ''abc'' ''High'' ''2024-12-09'' (init_ui setup_database) =
     (ShowError ''All fields are required!'', init_ui setup_database)"
proof -
  have p: "py_int ''abc'' = None" by (simp add: eval_defs)
  have h: "[] = ([] :: string) \<or> ''abc'' = [] \<or> ''High'' = []" by simp
  from missing_field_first [OF h, of "''2024-12-09''" "init_ui setup_database"] p
  show ?thesis by simp
qed

subsection \<open>The nutrition form\<close>






subsection \<open>Refresh of the lists\<close>

text \<open>
  C7. A refresh writes into the widget one line for each record of the listing, in its
  order, and for an empty listing the single line that says so. The line of an activity is
  name, minutes, intensity and day; that of a nutrition record is food, calories, the three
  amounts in grams and the day. Each line ends with a newline.
\<close>

theorem refresh_one_line_per_record:
  "activity_list (load_activities a) =
     (if list_activities (store a) = [] then ''No activities logged yet.\<newline>''
      else concat (map activity_line (list_activities (store a)))) \<and>
   activity_line (name, d, level, day) =
     name @ '' - '' @ py_str d @ '' min - '' @ level @ '' - '' @ day @ ''\<newline>'' \<and>
   activity_line (''Running'', 30, ''High'', day) =
     ''Running - 30 min - High - '' @ day @ ''\<newline>'' \<and>
   nutrition_list (load_nutrition a) =
     (if list_nutrition (store a) = [] then ''No nutrition records found.\<newline>''
      else concat (map nutrition_line (list_nutrition (store a)))) \<and>
   nutrition_line (food, cal, Some cb, Some pr, Some ft, day) =
     food @ '' - '' @ py_str cal @ '' cal - '' @ py_str cb @ ''g carbs - '' @ py_str pr
       @ ''g protein - '' @ py_str ft @ ''g fats - '' @ day @ ''\<newline>'' \<and>
   nutrition_line (''Apple'', 95, Some 0, Some 0, Some 0, day) =
     ''Apple - 95 cal - 0g carbs - 0g protein - 0g fats - '' @ day @ ''\<newline>''"
proof -
  have d30: "py_str 30 = ''30''" and d95: "py_str 95 = ''95''" and d0: "py_str 0 = ''0''"
    by (simp_all add: py_str_def digit_char_def)
  show ?thesis
    by (simp add: load_activities_def load_nutrition_def refresh_eq activity_line_def
          nutrition_line_def py_str_opt_def d30 d95 d0)
qed

theorem refresh_one_line_per_record_witness:
  "activity_list (load_activities (init_ui setup_database)) = ''No activities logged yet.\<newline>'' \<and>
   nutrition_list (load_nutrition (init_ui setup_database)) = ''No nutrition records found.\<newline>'' \<and>
   activity_list (run [LogActivity ''Running'' ''30'' ''High'' ''2024-12-09'',
                       LogActivity ''Yoga'' ''45'' ''Low'' ''2024-12-10'']
                    (init_ui setup_database)) =
     ''Running - 30 min - High - 2024-12-09\<newline>Yoga - 45 min - Low - 2024-12-10\<newline>''"
proof -
  have l: "list_activities (store (init_ui setup_database)) = []"
    and n: "list_nutrition (store (init_ui setup_database)) = []"
    by (simp_all add: eval_defs)
  have r: "run [LogActivity ''Running'' ''30'' ''High'' ''2024-12-09'',
                LogActivity ''Yoga'' ''45'' ''Low'' ''2024-12-10''] (init_ui setup_database) =
           load_activities (run [LogActivity ''Running'' ''30'' ''High'' ''2024-12-09'',
                LogActivity ''Yoga'' ''45'' ''Low'' ''2024-12-10''] (init_ui setup_database))"
    by (simp add: eval_defs)
  have s: "list_activities (store (run [LogActivity ''Running'' ''30'' ''High'' ''2024-12-09'',
                LogActivity ''Yoga'' ''45'' ''Low'' ''2024-12-10''] (init_ui setup_database))) =
           [(''Running'', 30, ''High'', ''2024-12-09''), (''Yoga'', 45, ''Low'', ''2024-12-10'')]"
    by (simp add: eval_defs)
  have "activity_list (run [LogActivity ''Running'' ''30'' ''High'' ''2024-12-09'',
                       LogActivity ''Yoga'' ''45'' ''Low'' ''2024-12-10'']
                    (init_ui setup_database)) =
        concat (map activity_line
          [(''Running'', 30, ''High'', ''2024-12-09''), (''Yoga'', 45, ''Low'', ''2024-12-10'')])"
    using refresh_one_line_per_record [of "run [LogActivity ''Running'' ''30'' ''High'' ''2024-12-09'',
                LogActivity ''Yoga'' ''45'' ''Low'' ''2024-12-10''] (init_ui setup_database)"] r s
    by simp
  moreover have "activity_list (load_activities (init_ui setup_database)) = ''No activities logged yet.\<newline>''"
    using refresh_one_line_per_record [of "init_ui setup_database"] l by simp
  moreover have "nutrition_list (load_nutrition (init_ui setup_database)) = ''No nutrition records found.\<newline>''"
    using refresh_one_line_per_record [of "init_ui setup_database"] n by simp
  ultimately show ?thesis by (simp add: activity_line_def py_str_def digit_char_def)
qed

subsection \<open>What each operation leaves alone\<close>

lemma insert_activity_frame:
  "insert_activity name d level today s = Inr s' \<Longrightarrow>
     nutrition s' = nutrition s \<and> nutrition_seq s' = nutrition_seq s \<and>
     goals s' = goals s \<and> goals_seq s' = goals_seq s"
  by (auto simp: insert_activity_def Let_def split: if_splits)

lemma insert_nutrition_frame:
  "insert_nutrition food cal cb pr ft today s = Inr s' \<Longrightarrow>
     activities s' = activities s \<and> activities_seq s' = activities_seq s \<and>
     goals s' = goals s \<and> goals_seq s' = goals_seq s"
  by (auto simp: insert_nutrition_def Let_def split: if_splits)

lemma replace_goal_frame:
  "replace_goal w c s = Inr s' \<Longrightarrow>
     activities s' = activities s \<and> activities_seq s' = activities_seq s \<and>
     nutrition s' = nutrition s \<and> nutrition_seq s' = nutrition_seq s"
  by (auto simp: replace_goal_def insert_goal_def delete_goals_def Let_def split: if_splits)

lemma log_activity_frame:
  "nutrition (store (snd (log_activity name dur level today a))) = nutrition (store a) \<and>
   nutrition_seq (store (snd (log_activity name dur level today a))) = nutrition_seq (store a) \<and>
   goals (store (snd (log_activity name dur level today a))) = goals (store a) \<and>
   goals_seq (store (snd (log_activity name dur level today a))) = goals_seq (store a)"
  by (simp add: log_activity_def insert_activity_def load_activities_def Let_def
           split: sum.splits error.splits prod.splits)

lemma log_nutrition_frame:
  "activities (store (snd (log_nutrition food cal cb pr ft today a))) = activities (store a) \<and>
   activities_seq (store (snd (log_nutrition food cal cb pr ft today a))) = activities_seq (store a) \<and>
   goals (store (snd (log_nutrition food cal cb pr ft today a))) = goals (store a) \<and>
   goals_seq (store (snd (log_nutrition food cal cb pr ft today a))) = goals_seq (store a)"
  by (simp add: log_nutrition_def insert_nutrition_def load_nutrition_def Let_def
           split: sum.splits error.splits prod.splits)

lemma set_goals_frame:
  "activities (store (snd (set_goals ex lim a))) = activities (store a) \<and>
   activities_seq (store (snd (set_goals ex lim a))) = activities_seq (store a) \<and>
   nutrition (store (snd (set_goals ex lim a))) = nutrition (store a) \<and>
   nutrition_seq (store (snd (set_goals ex lim a))) = nutrition_seq (store a)"
  by (simp add: set_goals_def replace_goal_def insert_goal_def delete_goals_def Let_def
           split: sum.splits error.splits prod.splits)

text \<open>
  C9. An insert into the activities table leaves the nutrition and the goals table as they
  were, an insert into the nutrition table leaves activities and goals, and the replacement
  of the goal leaves activities and nutrition. The same holds for the three callbacks on
  every path through them.
\<close>

theorem each_operation_writes_its_own_table:
  "(insert_activity name d level today s = Inr s' \<longrightarrow>
      nutrition s' = nutrition s \<and> goals s' = goals s) \<and>
   (insert_nutrition food c b p t today s = Inr s' \<longrightarrow>
      activities s' = activities s \<and> goals s' = goals s) \<and>
   (replace_goal w l s = Inr s' \<longrightarrow>
      activities s' = activities s \<and> nutrition s' = nutrition s) \<and>
   nutrition (store (snd (log_activity name dur level today a))) = nutrition (store a) \<and>
   goals (store (snd (log_activity name dur level today a))) = goals (store a) \<and>
   activities (store (snd (log_nutrition food cal cb pr ft today a))) = activities (store a) \<and>
   goals (store (snd (log_nutrition food cal cb pr ft today a))) = goals (store a) \<and>
   activities (store (snd (set_goals ex lim a))) = activities (store a) \<and>
   nutrition (store (snd (set_goals ex lim a))) = nutrition (store a)"
  using insert_activity_frame [of name d level today s s']
    insert_nutrition_frame [of food c b p t today s s']
    replace_goal_frame [of w l s s']
    log_activity_frame [of name dur level today a]
    log_nutrition_frame [of food cal cb pr ft today a]
    set_goals_frame [of ex lim a]
  by blast


theorem each_operation_writes_its_own_table_witness:
  "insert_activity ''Yoga'' 45 ''Low'' ''2024-12-10'' setup_database =
     Inr (setup_database\<lparr>activities :=
            [\<lparr>act_id = 1, activity_name = ''Yoga'', duration = 45, intensity = ''Low'',
              act_date = ''2024-12-10''\<rparr>], activities_seq := 1\<rparr>) \<and>
   insert_nutrition ''Apple'' 95 0 0 0 ''2024-12-10'' setup_database =
     Inr (setup_database\<lparr>nutrition :=
            [\<lparr>nut_id = 1, food_item = ''Apple'', calories = 95, carbs = Some 0,
              protein = Some 0, fats = Some 0, nut_date = ''2024-12-10''\<rparr>],
            nutrition_seq := 1\<rparr>) \<and>
   replace_goal 7 1800 setup_database =
     Inr (setup_database\<lparr>goals :=
            [\<lparr>goal_id = 1, weekly_exercise_goal = Some 7, daily_calorie_limit = Some 1800\<rparr>],
            goals_seq := 1\<rparr>) \<and>
   nutrition (setup_database\<lparr>activities :=
            [\<lparr>act_id = 1, activity_name = ''Yoga'', duration = 45, intensity = ''Low'',
              act_date = ''2024-12-10''\<rparr>], activities_seq := 1\<rparr>) = nutrition setup_database \<and>
   activities (setup_database\<lparr>goals :=
            [\<lparr>goal_id = 1, weekly_exercise_goal = Some 7, daily_calorie_limit = Some 1800\<rparr>],
            goals_seq := 1\<rparr>) = activities setup_database"
proof -
  have a: "insert_activity ''Yoga'' 45 ''Low'' ''2024-12-10'' setup_database =
     Inr (setup_database\<lparr>activities :=
            [\<lparr>act_id = 1, activity_name = ''Yoga'', duration = 45, intensity = ''Low'',
              act_date = ''2024-12-10''\<rparr>], activities_seq := 1\<rparr>)"
    by (simp add: eval_defs)
  have n: "insert_nutrition ''Apple'' 95 0 0 0 ''2024-12-10'' setup_database =
     Inr (setup_database\<lparr>nutrition :=
            [\<lparr>nut_id = 1, food_item = ''Apple'', calories = 95, carbs = Some 0,
              protein = Some 0, fats = Some 0, nut_date = ''2024-12-10''\<rparr>],
            nutrition_seq := 1\<rparr>)"
    by (simp add: eval_defs)
  have g: "replace_goal 7 1800 setup_database =
     Inr (setup_database\<lparr>goals :=
            [\<lparr>goal_id = 1, weekly_exercise_goal = Some 7, daily_calorie_limit = Some 1800\<rparr>],
            goals_seq := 1\<rparr>)"
    by (simp add: eval_defs)
  have a': "nutrition (setup_database\<lparr>activities :=
            [\<lparr>act_id = 1, activity_name = ''Yoga'', duration = 45, intensity = ''Low'',
              act_date = ''2024-12-10''\<rparr>], activities_seq := 1\<rparr>) = nutrition setup_database"
    using a each_operation_writes_its_own_table [THEN conjunct1,
        of "''Yoga''" 45 "''Low''" "''2024-12-10''" setup_database]
    by blast
  have g': "activities (setup_database\<lparr>goals :=
            [\<lparr>goal_id = 1, weekly_exercise_goal = Some 7, daily_calorie_limit = Some 1800\<rparr>],
            goals_seq := 1\<rparr>) = activities setup_database"
    using g each_operation_writes_its_own_table [THEN conjunct2, THEN conjunct2, THEN conjunct1,
        of 7 1800 setup_database]
    by blast
  from a n g a' g' show ?thesis by blast
qed

subsection \<open>Required fields\<close>





end
